theory Spec2Isabelle
  imports Main "HOL-Library.AList" "HOL-Library.Sublist"
begin

section \<open>The session lifecycle and the validate-then-commit submission of ENGIEHRLogin\<close>

text \<open>
  The development embeds the class \<open>ENGIEHRLogin\<close> of \<open>engie_hr_mcp/login.py\<close>.
  Every method becomes a function from the state before the call to the returned
  value and the state after it. The state holds the attributes of the object and
  the part of the environment the methods touch: the files, the replies the remote
  side is going to give, and the list of the requests sent so far.

  Every method of the class wraps its body into \<open>try ... except Exception\<close> and
  returns a failure value from the handler, so a raised exception is a branch that
  returns that value. Console output (\<open>print\<close>) is not part of the model.
\<close>

subsection \<open>JSON values and Python truthiness\<close>

datatype json =
    JNull
  | JBool bool
  | JNum int
  | JStr string
  | JArr "json list"
  | JObj "(string \<times> json) list"

text \<open>
  A JSON object is a Python \<open>dict\<close>: an association list in insertion order whose keys
  are distinct. \<open>JNum\<close> stands for a parsed number; the code never inspects one except
  for its truth value.
\<close>

fun truthy :: "json \<Rightarrow> bool" where
  "truthy JNull = False"
| "truthy (JBool b) = b"
| "truthy (JNum n) = (n \<noteq> 0)"
| "truthy (JStr s) = (s \<noteq> [])"
| "truthy (JArr xs) = (xs \<noteq> [])"
| "truthy (JObj kvs) = (kvs \<noteq> [])"

text \<open>The truth value of an optional string argument (\<open>if time_in:\<close>).\<close>

fun truthy_str :: "string option \<Rightarrow> bool" where
  "truthy_str None = False"
| "truthy_str (Some s) = (s \<noteq> [])"

text \<open>Python's \<open>needle in haystack\<close> on strings.\<close>

fun contains :: "string \<Rightarrow> string \<Rightarrow> bool" where
  "contains needle [] = (needle = [])"
| "contains needle (c # cs) = (prefix needle (c # cs) \<or> contains needle cs)"

subsection \<open>The cookie jar\<close>

text \<open>
  \<open>self.session.cookies\<close> is the jar of the transport library. It keeps its cookies
  by domain, then by path, then by name, each level a \<open>dict\<close> in insertion order, and
  iterates over them in that order. A cookie is its domain, path, name and value.
\<close>

type_synonym cookie = "string \<times> string \<times> string \<times> json"

type_synonym cookiejar = "(string \<times> (string \<times> (string \<times> json) list) list) list"

definition jar_cookies :: "cookiejar \<Rightarrow> cookie list" where
  "jar_cookies jar =
     concat (map (\<lambda>(domain, paths).
               concat (map (\<lambda>(path, names). map (\<lambda>(name, v). (domain, path, name, v)) names)
                         paths))
             jar)"

text \<open>
  The jar's \<open>set_cookie\<close> rewrites a string value that starts and ends with a double
  quote before it stores it: its \<open>replace\<close> call removes every backslash that is
  followed by a double quote, together with that quote, from left to right.
\<close>

fun remove_escaped_quotes :: "string \<Rightarrow> string" where
  "remove_escaped_quotes (a # b # rest) =
     (if a = CHR 0x5C \<and> b = CHR 0x22 then remove_escaped_quotes rest
      else a # remove_escaped_quotes (b # rest))"
| "remove_escaped_quotes rest = rest"

definition stored_value :: "json \<Rightarrow> json" where
  "stored_value v =
     (case v of
        JStr s \<Rightarrow>
          if s \<noteq> [] \<and> hd s = CHR 0x22 \<and> last s = CHR 0x22
          then JStr (remove_escaped_quotes s)
          else JStr s
      | _ \<Rightarrow> v)"

definition set_cookie :: "cookie \<Rightarrow> cookiejar \<Rightarrow> cookiejar" where
  "set_cookie c jar =
     (case c of
        (domain, path, name, v) \<Rightarrow>
          (let paths = (case map_of jar domain of None \<Rightarrow> [] | Some ps \<Rightarrow> ps);
               names = (case map_of paths path of None \<Rightarrow> [] | Some ns \<Rightarrow> ns)
           in AList.update domain
                (AList.update path (AList.update name (stored_value v) names) paths) jar))"

text \<open>
  \<open>remove_cookie_by_name(jar, name)\<close> clears the cookies of that name in every
  domain and path.
\<close>

definition remove_cookie_by_name :: "string \<Rightarrow> cookiejar \<Rightarrow> cookiejar" where
  "remove_cookie_by_name name jar =
     map (\<lambda>(domain, paths). (domain, map (\<lambda>(path, names). (path, AList.delete name names)) paths))
       jar"

text \<open>
  \<open>cookies.set(name, value)\<close>: the value \<open>None\<close> removes the cookies of that name; any
  other value makes a cookie with the empty domain and the path \<open>/\<close> and stores it.
\<close>

definition cookies_set :: "string \<Rightarrow> json \<Rightarrow> cookiejar \<Rightarrow> cookiejar" where
  "cookies_set name v jar =
     (if v = JNull then remove_cookie_by_name name jar
      else set_cookie ([], ''/'', name, v) jar)"

text \<open>
  \<open>dict(self.session.cookies)\<close> takes the names of the cookies in the order of the jar
  and reads the value of each name with \<open>jar[name]\<close>. That raises
  \<open>CookieConflictError\<close> when two cookies have the name, and \<open>KeyError\<close> when the
  value found is falsy (\<open>if toReturn:\<close>), the empty string for one. \<open>None\<close> is the
  exception.
\<close>

definition cookies_dict :: "cookiejar \<Rightarrow> (string \<times> json) list option" where
  "cookies_dict jar =
     (let cs = jar_cookies jar
      in if distinct (map (\<lambda>(domain, path, name, v). name) cs)
            \<and> list_all (\<lambda>(domain, path, name, v). truthy v) cs
         then Some (map (\<lambda>(domain, path, name, v). (name, v)) cs)
         else None)"

subsection \<open>Files, documents, replies and requests\<close>

text \<open>
  A file is described by what opening and \<open>json.load\<close> make of it: it is missing
  (\<open>FileNotFoundError\<close>), it cannot be opened or read (another \<open>OSError\<close>), its text
  is not JSON (\<open>JSONDecodeError\<close>), or its text is the JSON value given.
\<close>

datatype file_content = Missing | Unreadable | Malformed | Wellformed json

text \<open>
  A parsed HTML document is a forest of elements, each with its tag, its attributes
  and its children.
\<close>

datatype element =
  Element (tag: string) (attrs: "(string \<times> string) list") (children: "element list")

text \<open>
  A response of the transport. The parsers are the platform's, so a response carries
  what they return on it: \<open>resp_json\<close> is the value of \<open>response.json()\<close> (\<open>None\<close> when
  it raises), \<open>soup\<close> the document \<open>BeautifulSoup(response.text, 'html.parser')\<close>,
  \<open>query\<close> the value of \<open>parse_qs(urlparse(response.url).query)\<close> (\<open>None\<close> when it
  raises), and \<open>set_cookies\<close> the cookies the transport stores while it processes
  the response, each with the domain and the path it is stored under.
\<close>

record response =
  status_code :: int
  url :: string
  body :: string
  resp_json :: "json option"
  soup :: "element list"
  query :: "((string \<times> string list) list) option"
  set_cookies :: "(string \<times> string \<times> string \<times> string) list"

datatype reply = Raised | Reply response

text \<open>
  The calls to the transport: \<open>session.get(url)\<close>, \<open>session.post(url, data=...)\<close> and
  \<open>session.post(url, json=...)\<close>. The request headers are constants and are not
  recorded.
\<close>

datatype request =
    GET string
  | POST_form string "(string \<times> string) list"
  | POST_json string json

datatype qvalue = Single string | Multi "string list"

record login =
  cookies :: cookiejar
  headers :: "(string \<times> string) list"
  auth_params :: "(string \<times> qvalue) list"
  login_action_url :: "string option"
  dashboard_cookies :: "(string \<times> json) list"
  username :: string
  password :: string
  session_file :: string
  files :: "string \<Rightarrow> file_content"
  writable :: "string \<Rightarrow> bool"
  replies :: "reply list"
  trace :: "(request \<times> reply) list"

definition base_url :: string where
  "base_url = ''https://engie.hrhub.ph/''"

definition sso_url :: string where
  "sso_url = ''https://sso.sprout.ph/''"

subsection \<open>The Session Store\<close>

text \<open>
  \<open>save_session\<close> writes the cookies and the headers of the session as one JSON
  object. \<open>dict(self.session.cookies)\<close> is evaluated first: when it raises, the
  handler returns \<open>False\<close> and no file is opened. Opening the file for writing raises
  when the location is not writable; the handler returns \<open>False\<close> and the file
  system is as before.
\<close>

definition save_session :: "string \<Rightarrow> login \<Rightarrow> bool \<times> login" where
  "save_session filename s =
     (case cookies_dict (cookies s) of
        None \<Rightarrow> (False, s)
      | Some cookie_dict \<Rightarrow>
          (let session_data =
                 JObj [(''cookies'', JObj cookie_dict),
                       (''headers'', JObj (map (\<lambda>(k, v). (k, JStr v)) (headers s)))]
           in if writable s filename
              then (True, s\<lparr>files := (files s)(filename := Wellformed session_data)\<rparr>)
              else (False, s)))"

text \<open>
  \<open>load_session\<close> reads the file and sets every cookie of its \<open>cookies\<close> object in the
  jar, one after the other. \<open>session_data.get('cookies', {})\<close> raises when the value
  read is not an object, and \<open>.items()\<close> raises when the entry is not an object; both
  happen before the first cookie is set.
\<close>

definition load_session :: "string \<Rightarrow> login \<Rightarrow> bool \<times> login" where
  "load_session filename s =
     (case files s filename of
        Missing \<Rightarrow> (False, s)
      | Unreadable \<Rightarrow> (False, s)
      | Malformed \<Rightarrow> (False, s)
      | Wellformed session_data \<Rightarrow>
          (case session_data of
             JObj kvs \<Rightarrow>
               (case map_of kvs ''cookies'' of
                  None \<Rightarrow> (True, s)
                | Some (JObj items) \<Rightarrow>
                    (True, s\<lparr>cookies := fold (\<lambda>(name, v). cookies_set name v) items (cookies s)\<rparr>)
                | Some _ \<Rightarrow> (False, s))
           | _ \<Rightarrow> (False, s)))"

subsection \<open>The transport\<close>

text \<open>
  One call to the transport takes the next reply of the remote side, records the
  request with it, and stores the cookies of the response in the jar. \<open>Raised\<close> is a
  call that raises (a connection error, a time-out, a URL the library refuses); a
  call after the last reply raises.
\<close>

definition send :: "request \<Rightarrow> login \<Rightarrow> reply \<times> login" where
  "send rq s =
     (case replies s of
        [] \<Rightarrow> (Raised, s\<lparr>trace := trace s @ [(rq, Raised)]\<rparr>)
      | Raised # rs \<Rightarrow> (Raised, s\<lparr>replies := rs, trace := trace s @ [(rq, Raised)]\<rparr>)
      | Reply response # rs \<Rightarrow>
          (Reply response,
           s\<lparr>replies := rs,
             trace := trace s @ [(rq, Reply response)],
             cookies := fold (\<lambda>(domain, path, name, v). set_cookie (domain, path, name, JStr v))
                          (set_cookies response) (cookies s)\<rparr>))"

subsection \<open>Queries on a parsed document\<close>

text \<open>The elements of a forest with all their descendants, in document order.\<close>

fun descendants :: "element list \<Rightarrow> element list" where
  "descendants [] = []"
| "descendants (Element t a cs # es) = Element t a cs # descendants cs @ descendants es"

text \<open>
  \<open>soup.find_all(name, attrs)\<close>, \<open>soup.find(name, attrs)\<close>, \<open>tag.get(key)\<close>,
  \<open>tag.get(key, default)\<close> and \<open>soup.find_all(attrs={key: True})\<close>.
\<close>

definition soup_find_all :: "string \<Rightarrow> (string \<times> string) list \<Rightarrow> element list \<Rightarrow> element list" where
  "soup_find_all name want doc =
     filter (\<lambda>e. tag e = name \<and> list_all (\<lambda>(k, v). map_of (attrs e) k = Some v) want)
       (descendants doc)"

definition soup_find :: "string \<Rightarrow> (string \<times> string) list \<Rightarrow> element list \<Rightarrow> element option" where
  "soup_find name want doc =
     (case soup_find_all name want doc of [] \<Rightarrow> None | e # _ \<Rightarrow> Some e)"

definition tag_get :: "element \<Rightarrow> string \<Rightarrow> string option" where
  "tag_get e key = map_of (attrs e) key"

definition tag_get_default :: "element \<Rightarrow> string \<Rightarrow> string \<Rightarrow> string" where
  "tag_get_default e key dflt = (case map_of (attrs e) key of None \<Rightarrow> dflt | Some v \<Rightarrow> v)"

definition soup_find_all_having :: "string \<Rightarrow> element list \<Rightarrow> element list" where
  "soup_find_all_having key doc = filter (\<lambda>e. map_of (attrs e) key \<noteq> None) (descendants doc)"

subsection \<open>The Authentication Flow\<close>

text \<open>
  The loop of \<open>get_initial_auth_params\<close> that replaces a one-element list of values
  by its element.
\<close>

fun collapse :: "string \<times> string list \<Rightarrow> string \<times> qvalue" where
  "collapse (key, [v]) = (key, Single v)"
| "collapse (key, vs) = (key, Multi vs)"

definition get_initial_auth_params :: "login \<Rightarrow> bool \<times> login" where
  "get_initial_auth_params s =
     (case send (GET base_url) s of
        (Raised, s1) \<Rightarrow> (False, s1)
      | (Reply response, s1) \<Rightarrow>
          if status_code response \<noteq> 200 then (False, s1)
          else if \<not> contains ''sso.sprout.ph'' (url response) then (False, s1)
          else
            (case query response of
               None \<Rightarrow> (False, s1)
             | Some q \<Rightarrow>
                 let s2 = s1\<lparr>auth_params := map collapse q\<rparr> in
                 (case soup_find ''form'' [(''id'', ''kc-form-login'')] (soup response) of
                    None \<Rightarrow> (False, s2)
                  | Some form \<Rightarrow>
                      (case tag_get form ''action'' of
                         None \<Rightarrow> (False, s2)
                       | Some action_url \<Rightarrow>
                           if action_url \<noteq> []
                           then (True, s2\<lparr>login_action_url := Some action_url\<rparr>)
                           else (False, s2)))))"

text \<open>
  The fields of the post-back form: every \<open>input\<close> with a non-empty name, a later one
  replacing an earlier one of the same name.
\<close>

definition form_fields :: "element \<Rightarrow> (string \<times> string) list" where
  "form_fields form =
     fold (\<lambda>input_elem form_data.
             (case tag_get input_elem ''name'' of
                None \<Rightarrow> form_data
              | Some name \<Rightarrow>
                  if name \<noteq> []
                  then AList.update name (tag_get_default input_elem ''value'' []) form_data
                  else form_data))
       (soup_find_all ''input'' [] (children form)) []"

text \<open>
  \<open>perform_login\<close> reads \<open>self.login_action_url\<close>, an attribute that only
  \<open>get_initial_auth_params\<close> sets: reading it before raises, and nothing is sent. On
  the dashboard it takes \<open>dict(self.session.cookies)\<close>; when that raises, the handler
  returns \<open>False\<close>.
\<close>

definition perform_login :: "string \<Rightarrow> string \<Rightarrow> login \<Rightarrow> bool \<times> login" where
  "perform_login user pass s =
     (case login_action_url s of
        None \<Rightarrow> (False, s)
      | Some action \<Rightarrow>
          (case send (POST_form action
                       [(''username'', user), (''password'', pass), (''credentialId'', [])]) s of
             (Raised, s1) \<Rightarrow> (False, s1)
           | (Reply response, s1) \<Rightarrow>
               if status_code response = 200 then
                 (case soup_find ''form'' [] (soup response) of
                    None \<Rightarrow> (False, s1)
                  | Some form \<Rightarrow>
                      (case tag_get form ''action'' of
                         None \<Rightarrow> (False, s1)
                       | Some post_back \<Rightarrow>
                           if post_back = [] then (False, s1)
                           else
                             (case send (POST_form post_back (form_fields form)) s1 of
                                (Raised, s2) \<Rightarrow> (False, s2)
                              | (Reply final_response, s2) \<Rightarrow>
                                  if contains ''engie.hrhub.ph'' (url final_response)
                                     \<and> contains ''EmployeeDashboard.aspx'' (url final_response)
                                  then
                                    (case cookies_dict (cookies s2) of
                                       None \<Rightarrow> (False, s2)
                                     | Some cookie_dict \<Rightarrow>
                                         (True, s2\<lparr>dashboard_cookies := cookie_dict\<rparr>))
                                  else (False, s2))))
               else (False, s1)))"

definition dashboard_url :: string where
  "dashboard_url = base_url @ ''EmployeeDashboard.aspx''"

definition test_authenticated_access :: "login \<Rightarrow> bool \<times> login" where
  "test_authenticated_access s =
     (case send (GET dashboard_url) s of
        (Raised, s1) \<Rightarrow> (False, s1)
      | (Reply response, s1) \<Rightarrow>
          if status_code response = 200 \<and> contains ''Employee Dashboard'' (body response)
          then (True, s1)
          else (False, s1))"

subsection \<open>The Session Lifecycle Manager\<close>

definition fresh_authentication :: "login \<Rightarrow> bool \<times> login" where
  "fresh_authentication s =
     (case get_initial_auth_params s of
        (False, s1) \<Rightarrow> (False, s1)
      | (True, s1) \<Rightarrow>
          (case perform_login (username s1) (password s1) s1 of
             (False, s2) \<Rightarrow> (False, s2)
           | (True, s2) \<Rightarrow>
               (case test_authenticated_access s2 of
                  (False, s3) \<Rightarrow> (False, s3)
                | (True, s3) \<Rightarrow> (True, snd (save_session (session_file s3) s3)))))"

text \<open>
  \<open>_ensure_authenticated\<close>: the part after the reuse of a stored session is
  \<open>fresh_authentication\<close> above.
\<close>

definition ensure_authenticated :: "login \<Rightarrow> bool \<times> login" where
  "ensure_authenticated s =
     (case load_session (session_file s) s of
        (True, s1) \<Rightarrow>
          (case test_authenticated_access s1 of
             (True, s2) \<Rightarrow> (True, s2)
           | (False, s2) \<Rightarrow> fresh_authentication s2)
      | (False, s1) \<Rightarrow> fresh_authentication s1)"

subsection \<open>The Identity Resolver\<close>

text \<open>
  Texts are sequences of ASCII characters. On them \<open>\d\<close> is one of the ten digits,
  \<open>\s\<close> one of the ten ASCII white-space characters of Python, and \<open>re.IGNORECASE\<close>
  identifies a capital letter with its small one.
\<close>

definition is_digit :: "char \<Rightarrow> bool" where
  "is_digit c = (c \<in> set ''0123456789'')"

definition is_space :: "char \<Rightarrow> bool" where
  "is_space c = (c \<in> set [CHR 0x09, CHR 0x0A, CHR 0x0B, CHR 0x0C, CHR 0x0D,
                            CHR 0x1C, CHR 0x1D, CHR 0x1E, CHR 0x1F, CHR 0x20])"

definition lower :: "char \<Rightarrow> char" where
  "lower c =
     (case map_of (zip ''ABCDEFGHIJKLMNOPQRSTUVWXYZ'' ''abcdefghijklmnopqrstuvwxyz'') c of
        None \<Rightarrow> c
      | Some l \<Rightarrow> l)"

text \<open>\<open>str.isdigit\<close> and \<open>int\<close> on a string of digits.\<close>

definition isdigit :: "string \<Rightarrow> bool" where
  "isdigit v = (v \<noteq> [] \<and> list_all is_digit v)"

definition int_of_digits :: "string \<Rightarrow> int" where
  "int_of_digits ds = foldl (\<lambda>n c. 10 * n + (int (of_char c) - 48)) 0 ds"

text \<open>
  The four patterns of \<open>_get_employee_id\<close> have one shape,
  \<open>NAME["\']?\s*[:=]\s*["\']?(\d+)\<close>, and differ in the name. The character classes
  that follow each other are disjoint, so a match at a position is the greedy one.
  \<open>match_here\<close> is the group of a match that starts at the head of the text, and
  \<open>first_match\<close> is \<open>re.findall(pattern, text, re.IGNORECASE)[0]\<close> when the list is not
  empty.
\<close>

definition js_patterns :: "string list" where
  "js_patterns = [''EmployeeID'', ''employeeId'', ''empId'', ''UserID'']"

definition skip_quote :: "string \<Rightarrow> string" where
  "skip_quote txt =
     (case txt of
        [] \<Rightarrow> []
      | c # cs \<Rightarrow> if c = CHR 0x22 \<or> c = CHR 0x27 then cs else c # cs)"

definition match_here :: "string \<Rightarrow> string \<Rightarrow> string option" where
  "match_here name txt =
     (if length name \<le> length txt \<and> map lower (take (length name) txt) = map lower name
      then
        (case dropWhile is_space (skip_quote (drop (length name) txt)) of
           [] \<Rightarrow> None
         | c # rest \<Rightarrow>
             if c = CHR '':'' \<or> c = CHR ''=''
             then
               (let ds = takeWhile is_digit (skip_quote (dropWhile is_space rest))
                in if ds = [] then None else Some ds)
             else None)
      else None)"

fun first_match :: "string \<Rightarrow> string \<Rightarrow> string option" where
  "first_match name [] = None"
| "first_match name (c # cs) =
     (case match_here name (c # cs) of
        Some ds \<Rightarrow> Some ds
      | None \<Rightarrow> first_match name cs)"

text \<open>The three strategies, each \<open>None\<close> when it finds nothing.\<close>

fun from_javascript :: "string list \<Rightarrow> string \<Rightarrow> int option" where
  "from_javascript [] txt = None"
| "from_javascript (pattern # patterns) txt =
     (case first_match pattern txt of
        Some ds \<Rightarrow> Some (int_of_digits ds)
      | None \<Rightarrow> from_javascript patterns txt)"

fun from_hidden_inputs :: "element list \<Rightarrow> int option" where
  "from_hidden_inputs [] = None"
| "from_hidden_inputs (inp # inputs) =
     (case tag_get inp ''name'' of
        None \<Rightarrow> from_hidden_inputs inputs
      | Some name \<Rightarrow>
          if name \<noteq> [] \<and> contains ''employee'' (map lower name)
             \<and> isdigit (tag_get_default inp ''value'' [])
          then Some (int_of_digits (tag_get_default inp ''value'' []))
          else from_hidden_inputs inputs)"

definition from_data_attribute :: "element list \<Rightarrow> int option" where
  "from_data_attribute doc =
     (case soup_find_all_having ''data-employee-id'' doc of
        [] \<Rightarrow> None
      | e # _ \<Rightarrow>
          (case tag_get e ''data-employee-id'' of
             None \<Rightarrow> None
           | Some emp_id \<Rightarrow>
               if emp_id \<noteq> [] \<and> isdigit emp_id then Some (int_of_digits emp_id) else None))"

definition get_employee_id :: "login \<Rightarrow> int option \<times> login" where
  "get_employee_id s =
     (case send (GET dashboard_url) s of
        (Raised, s1) \<Rightarrow> (None, s1)
      | (Reply response, s1) \<Rightarrow>
          if status_code response \<noteq> 200 then (None, s1)
          else
            (case from_javascript js_patterns (body response) of
               Some n \<Rightarrow> (Some n, s1)
             | None \<Rightarrow>
                 (case from_hidden_inputs
                         (soup_find_all ''input'' [(''type'', ''hidden'')] (soup response)) of
                    Some n \<Rightarrow> (Some n, s1)
                  | None \<Rightarrow> (from_data_attribute (soup response), s1))))"

subsection \<open>The date of a request\<close>

text \<open>
  \<open>datetime.strptime(target_date, '%Y-%m-%d')\<close> on ASCII text: four digits, a hyphen,
  a month \<open>1[0-2]|0[1-9]|[1-9]\<close>, a hyphen, a day
  \<open>3[0-1]|[1-2]\d|0[1-9]|[1-9]| [1-9]\<close> and nothing after it; the three numbers must
  be a date of the calendar, whose first year is 1. \<open>None\<close> is the \<open>ValueError\<close>.
\<close>

definition digit_value :: "char \<Rightarrow> nat" where
  "digit_value c = of_char c - 48"

definition nonzero_digit :: "char \<Rightarrow> bool" where
  "nonzero_digit c = (c \<in> set ''123456789'')"

fun year_field :: "string \<Rightarrow> (nat \<times> string) option" where
  "year_field (a # b # c # d # rest) =
     (if is_digit a \<and> is_digit b \<and> is_digit c \<and> is_digit d
      then Some (1000 * digit_value a + 100 * digit_value b + 10 * digit_value c + digit_value d,
                 rest)
      else None)"
| "year_field _ = None"

fun month_field :: "string \<Rightarrow> (nat \<times> string) option" where
  "month_field (a # b # rest) =
     (if a = CHR ''1'' \<and> b \<in> set ''012'' then Some (10 + digit_value b, rest)
      else if a = CHR ''0'' \<and> nonzero_digit b then Some (digit_value b, rest)
      else if nonzero_digit a then Some (digit_value a, b # rest)
      else None)"
| "month_field [a] = (if nonzero_digit a then Some (digit_value a, []) else None)"
| "month_field [] = None"

fun day_field :: "string \<Rightarrow> (nat \<times> string) option" where
  "day_field (a # b # rest) =
     (if a = CHR ''3'' \<and> b \<in> set ''01'' then Some (30 + digit_value b, rest)
      else if a \<in> set ''12'' \<and> is_digit b then Some (10 * digit_value a + digit_value b, rest)
      else if a = CHR ''0'' \<and> nonzero_digit b then Some (digit_value b, rest)
      else if nonzero_digit a then Some (digit_value a, b # rest)
      else if a = CHR '' '' \<and> nonzero_digit b then Some (digit_value b, rest)
      else None)"
| "day_field [a] = (if nonzero_digit a then Some (digit_value a, []) else None)"
| "day_field [] = None"

definition hyphen :: "string \<Rightarrow> string option" where
  "hyphen txt = (case txt of [] \<Rightarrow> None | c # cs \<Rightarrow> if c = CHR ''-'' then Some cs else None)"

definition leap_year :: "nat \<Rightarrow> bool" where
  "leap_year y = (y mod 4 = 0 \<and> (y mod 100 \<noteq> 0 \<or> y mod 400 = 0))"

definition days_in_month :: "nat \<Rightarrow> nat \<Rightarrow> nat" where
  "days_in_month y m =
     (if m = 2 then (if leap_year y then 29 else 28)
      else if m \<in> set [4, 6, 9, 11] then 30
      else 31)"

definition strptime :: "string \<Rightarrow> (nat \<times> nat \<times> nat) option" where
  "strptime target_date =
     (case year_field target_date of
        None \<Rightarrow> None
      | Some (y, r1) \<Rightarrow>
          (case hyphen r1 of
             None \<Rightarrow> None
           | Some r2 \<Rightarrow>
               (case month_field r2 of
                  None \<Rightarrow> None
                | Some (m, r3) \<Rightarrow>
                    (case hyphen r3 of
                       None \<Rightarrow> None
                     | Some r4 \<Rightarrow>
                         (case day_field r4 of
                            None \<Rightarrow> None
                          | Some (d, r5) \<Rightarrow>
                              if r5 = [] \<and> 1 \<le> y \<and> d \<le> days_in_month y m
                              then Some (y, m, d)
                              else None)))))"

subsection \<open>The Action Submitter\<close>

definition certificate_logs :: "string \<Rightarrow> string option \<Rightarrow> string option \<Rightarrow> json list" where
  "certificate_logs target_date time_in time_out =
     (case time_in of
        None \<Rightarrow> []
      | Some t \<Rightarrow>
          if t \<noteq> []
          then [JObj [(''FormattedDate'', JStr target_date),
                      (''FormattedTime'', JStr t),
                      (''Type'', JStr ''In''),
                      (''CertificateLogID'', JNum 0)]]
          else [])
     @
     (case time_out of
        None \<Rightarrow> []
      | Some t \<Rightarrow>
          if t \<noteq> []
          then [JObj [(''FormattedDate'', JStr target_date),
                      (''FormattedTime'', JStr t),
                      (''Type'', JStr ''Out''),
                      (''CertificateLogID'', JNum 0)]]
          else [])"

definition coa_payload :: "string \<Rightarrow> string \<Rightarrow> int \<Rightarrow> json list \<Rightarrow> json" where
  "coa_payload type_other reason employee_id logs =
     JObj [(''certificateOfAttendance'',
            JObj [(''CertificateOfAttendanceID'', JNum 0),
                  (''CertificateTypeID'', JStr ''0''),
                  (''CertificateTypeOthers'', JStr type_other),
                  (''Remarks'', JStr reason),
                  (''Status'', JNull),
                  (''EmployeeID'', JNum employee_id),
                  (''FormattedCertificateLogs'', JArr logs)])]"

definition validate_url :: string where
  "validate_url = base_url @ ''CertificateOfAttendance.aspx/ValidateSameFiling''"

definition submit_url :: string where
  "submit_url = base_url @ ''CertificateOfAttendance.aspx/Save''"

text \<open>
  The outcome read from a commit response of status 200: \<open>result.get('d')\<close> raises on
  a value that is not an object, and the handler of the parsing block returns \<open>True\<close>
  as it does when the body is not JSON.
\<close>

definition commit_outcome :: "response \<Rightarrow> bool" where
  "commit_outcome submit_response =
     (case resp_json submit_response of
        None \<Rightarrow> True
      | Some (JObj result) \<Rightarrow>
          (case map_of result ''d'' of
             None \<Rightarrow> False
           | Some d \<Rightarrow> truthy d)
      | Some _ \<Rightarrow> True)"

definition apply_coa ::
  "string \<Rightarrow> string option \<Rightarrow> string option \<Rightarrow> string \<Rightarrow> string \<Rightarrow> login \<Rightarrow> bool \<times> login" where
  "apply_coa target_date time_in time_out reason type_other s =
     (if \<not> truthy_str time_in \<and> \<not> truthy_str time_out then (False, s)
      else
        (case ensure_authenticated s of
           (False, s1) \<Rightarrow> (False, s1)
         | (True, s1) \<Rightarrow>
             (case strptime target_date of
                None \<Rightarrow> (False, s1)
              | Some date_obj \<Rightarrow>
                  (case get_employee_id s1 of
                     (None, s2) \<Rightarrow> (False, s2)
                   | (Some employee_id, s2) \<Rightarrow>
                       if employee_id = 0 then (False, s2)
                       else
                         (let payload = coa_payload type_other reason employee_id
                                          (certificate_logs target_date time_in time_out)
                          in
                            (case send (POST_json validate_url payload) s2 of
                               (Raised, s3) \<Rightarrow> (False, s3)
                             | (Reply validate_response, s3) \<Rightarrow>
                                 if status_code validate_response \<noteq> 200 then (False, s3)
                                 else
                                   (case send (POST_json submit_url payload) s3 of
                                      (Raised, s4) \<Rightarrow> (False, s4)
                                    | (Reply submit_response, s4) \<Rightarrow>
                                        if status_code submit_response \<noteq> 200 then (False, s4)
                                        else (commit_outcome submit_response, s4))))))))"

subsection \<open>Notions used to state the properties\<close>

text \<open>The requests of a call with their replies: what the call added to the trace.\<close>

definition new_events :: "login \<Rightarrow> login \<Rightarrow> (request \<times> reply) list" where
  "new_events s s' = drop (length (trace s)) (trace s')"

fun is_json_post :: "request \<Rightarrow> bool" where
  "is_json_post (POST_json u p) = True"
| "is_json_post _ = False"

definition no_json_post :: "(request \<times> reply) list \<Rightarrow> bool" where
  "no_json_post evs = list_all (\<lambda>ev. \<not> is_json_post (fst ev)) evs"

text \<open>
  The reply to the commit request decides the result of a submission that got that
  far.
\<close>

fun commit_reply_outcome :: "reply \<Rightarrow> bool" where
  "commit_reply_outcome Raised = False"
| "commit_reply_outcome (Reply submit_response) =
     (status_code submit_response = 200 \<and> commit_outcome submit_response)"

text \<open>Reading a payload: \<open>payload["certificateOfAttendance"]["FormattedCertificateLogs"]\<close>.\<close>

definition json_get :: "json \<Rightarrow> string \<Rightarrow> json option" where
  "json_get j key = (case j of JObj kvs \<Rightarrow> map_of kvs key | _ \<Rightarrow> None)"

definition formatted_certificate_logs :: "json \<Rightarrow> json option" where
  "formatted_certificate_logs payload =
     (case json_get payload ''certificateOfAttendance'' of
        None \<Rightarrow> None
      | Some coa \<Rightarrow> json_get coa ''FormattedCertificateLogs'')"

text \<open>
  The host component of a URL in the words of the specification, which the code
  never computes: the text between \<open>://\<close> and the next \<open>/\<close>, \<open>?\<close> or \<open>#\<close>, without the
  user information before \<open>@\<close> and without the port after \<open>:\<close>.
\<close>

fun after_scheme :: "string \<Rightarrow> string" where
  "after_scheme (a # b # c # rest) =
     (if a = CHR '':'' \<and> b = CHR ''/'' \<and> c = CHR ''/'' then rest
      else after_scheme (b # c # rest))"
| "after_scheme _ = []"

definition spec_url_host :: "string \<Rightarrow> string" where
  "spec_url_host u =
     (let authority = takeWhile (\<lambda>c. c \<notin> set ''/?#'') (after_scheme u);
          hostport = rev (takeWhile (\<lambda>c. c \<noteq> CHR ''@'') (rev authority))
      in takeWhile (\<lambda>c. c \<noteq> CHR '':'') hostport)"

subsection \<open>Concrete sessions and replies\<close>

text \<open>
  A new object on a machine without files, a stored session, and pages of the
  portal and of the identity provider as the tests of the repository mock them.
\<close>

definition new_login :: login where
  "new_login =
     \<lparr>cookies = [],
      headers = [(''User-Agent'', ''Mozilla/5.0'')],
      auth_params = [],
      login_action_url = None,
      dashboard_cookies = [],
      username = ''employee'',
      password = ''secret'',
      session_file = ''engie_session.json'',
      files = (\<lambda>_. Missing),
      writable = (\<lambda>_. True),
      replies = [],
      trace = []\<rparr>"

definition stored_session :: json where
  "stored_session =
     JObj [(''cookies'', JObj [(''ASP.NET_SessionId'', JStr ''abc123'')]),
           (''headers'', JObj [(''User-Agent'', JStr ''Mozilla/5.0'')])]"

definition with_file :: "file_content \<Rightarrow> login \<Rightarrow> login" where
  "with_file content s = s\<lparr>files := (files s)(''engie_session.json'' := content)\<rparr>"

definition dashboard_page :: response where
  "dashboard_page =
     \<lparr>status_code = 200,
      url = ''https://engie.hrhub.ph/EmployeeDashboard.aspx'',
      body = ''<html><body><h1>Employee Dashboard</h1><script>var EmployeeID = 6033;</script></body></html>'',
      resp_json = None,
      soup = [Element ''html'' []
                [Element ''body'' [] [Element ''h1'' [] [], Element ''script'' [] []]]],
      query = Some [],
      set_cookies = []\<rparr>"

definition json_reply :: "int \<Rightarrow> string \<Rightarrow> string \<Rightarrow> json option \<Rightarrow> response" where
  "json_reply code u b j =
     \<lparr>status_code = code, url = u, body = b, resp_json = j, soup = [], query = Some [],
      set_cookies = []\<rparr>"

definition login_page :: "string \<Rightarrow> (string \<times> string list) list \<Rightarrow> string \<Rightarrow> response" where
  "login_page u q action =
     \<lparr>status_code = 200,
      url = u,
      body = ''<html><body><form id=kc-form-login action='' @ action
             @ ''></form></body></html>'',
      resp_json = None,
      soup = [Element ''html'' []
                [Element ''body'' []
                   [Element ''form'' [(''id'', ''kc-form-login''), (''action'', action)] []]]],
      query = Some q,
      set_cookies = []\<rparr>"

text \<open>The post-back page of the identity provider after the credentials were accepted.\<close>

definition post_back_page :: response where
  "post_back_page =
     \<lparr>status_code = 200,
      url = ''https://sso.sprout.ph/login-actions/authenticate'',
      body = ''<html><body><form action=https://engie.hrhub.ph/signin-oidc><input name=code value=c0de><input name=state value=xyz></form></body></html>'',
      resp_json = None,
      soup = [Element ''html'' []
                [Element ''body'' []
                   [Element ''form'' [(''action'', ''https://engie.hrhub.ph/signin-oidc'')]
                      [Element ''input'' [(''name'', ''code''), (''value'', ''c0de'')] [],
                       Element ''input'' [(''name'', ''state''), (''value'', ''xyz'')] []]]]],
      query = Some [],
      set_cookies = [(''sso.sprout.ph'', ''/'', ''KEYCLOAK_SESSION'', ''k1'')]\<rparr>"

text \<open>A text between double quotes, for the bodies that are JSON.\<close>

definition dq :: "string \<Rightarrow> string" where
  "dq txt = CHR 0x22 # txt @ [CHR 0x22]"

definition validate_passed :: response where
  "validate_passed =
     json_reply 200 ''https://engie.hrhub.ph/CertificateOfAttendance.aspx/ValidateSameFiling''
       (''{'' @ dq ''d'' @ '':false}'') (Some (JObj [(''d'', JBool False)]))"

definition validate_refused :: response where
  "validate_refused =
     json_reply 400 ''https://engie.hrhub.ph/CertificateOfAttendance.aspx/ValidateSameFiling''
       ''Validation failed'' None"

definition commit_accepted :: response where
  "commit_accepted =
     json_reply 200 ''https://engie.hrhub.ph/CertificateOfAttendance.aspx/Save''
       (''{'' @ dq ''d'' @ '':{'' @ dq ''IsSuccess'' @ '':true,'' @ dq ''ID'' @ '':123}}'')
       (Some (JObj [(''d'', JObj [(''IsSuccess'', JBool True), (''ID'', JNum 123)])]))"

text \<open>A commit response whose body is the JSON text \<open>null\<close>.\<close>

definition commit_null :: response where
  "commit_null =
     json_reply 200 ''https://engie.hrhub.ph/CertificateOfAttendance.aspx/Save''
       ''null'' (Some JNull)"

text \<open>A commit response of status 201 whose field \<open>d\<close> is truthy.\<close>

definition commit_created :: response where
  "commit_created =
     json_reply 201 ''https://engie.hrhub.ph/CertificateOfAttendance.aspx/Save''
       (''{'' @ dq ''d'' @ '':{'' @ dq ''IsSuccess'' @ '':true,'' @ dq ''ID'' @ '':123}}'')
       (Some (JObj [(''d'', JObj [(''IsSuccess'', JBool True), (''ID'', JNum 123)])]))"

text \<open>
  The dashboard as the portal serves it at the end of a login, with a new session
  cookie; the dashboard with a cookie whose value is five characters, a double
  quote, two backslashes and two double quotes; a jar as the portal leaves it when
  one of its cookies has the empty value; and a jar with the session cookie of the
  portal.
\<close>

definition landing_page :: response where
  "landing_page =
     dashboard_page\<lparr>set_cookies := [(''engie.hrhub.ph'', ''/'', ''ASP.NET_SessionId'', ''fresh'')]\<rparr>"

definition quoted_cookie_page :: response where
  "quoted_cookie_page =
     dashboard_page\<lparr>set_cookies :=
       [(''engie.hrhub.ph'', ''/'', ''pref'', [CHR 0x22, CHR 0x5C, CHR 0x5C, CHR 0x22, CHR 0x22])]\<rparr>"

definition empty_value_jar :: cookiejar where
  "empty_value_jar =
     [(''engie.hrhub.ph'',
       [(''/'', [(''ASP.NET_SessionId'', JStr ''abc123''), (''lang'', JStr [])])])]"

definition portal_jar :: cookiejar where
  "portal_jar = [(''engie.hrhub.ph'', [(''/'', [(''ASP.NET_SessionId'', JStr ''old'')])])]"

text \<open>An object that finds the stored session on disk and is given the replies listed.\<close>

definition reusable_session :: "reply list \<Rightarrow> login" where
  "reusable_session rs = (with_file (Wellformed stored_session) new_login)\<lparr>replies := rs\<rparr>"

section \<open>Properties\<close>

subsection \<open>The Session Store\<close>

text \<open>
  Claim C6, as the code has it. \<open>load_session\<close> returns a value on every input. It
  returns \<open>False\<close> and leaves the session as it was when the location does not exist,
  when its content is not well-formed, and when it cannot be read: the returned
  value is the same in the three cases.
\<close>

theorem load_session_failure_value:
  "(files s loc = Missing \<longrightarrow> load_session loc s = (False, s))
   \<and> (files s loc = Malformed \<longrightarrow> load_session loc s = (False, s))
   \<and> (files s loc = Unreadable \<longrightarrow> load_session loc s = (False, s))"
  by (simp add: load_session_def)

text \<open>The missing file and the corrupt file of the tests.\<close>

theorem load_session_failure_value_witness:
  "load_session ''engie_session.json'' new_login = (False, new_login)
   \<and> load_session ''engie_session.json'' (with_file Malformed new_login)
       = (False, with_file Malformed new_login)"
proof -
  have "files new_login ''engie_session.json'' = Missing"
    by (simp add: new_login_def)
  moreover have "files (with_file Malformed new_login) ''engie_session.json'' = Malformed"
    by (simp add: with_file_def)
  ultimately show ?thesis
    using load_session_failure_value[of new_login "''engie_session.json''"]
      load_session_failure_value[of "with_file Malformed new_login" "''engie_session.json''"]
    by blast
qed

text \<open>
  Claim C6 as stated asks for two failures that the result tells apart. On a missing
  file and on a corrupt file the returned values are equal.
\<close>

theorem load_session_same_failure:
  "files new_login ''engie_session.json'' = Missing
   \<and> files (with_file Malformed new_login) ''engie_session.json'' = Malformed
   \<and> fst (load_session ''engie_session.json'' new_login)
       = fst (load_session ''engie_session.json'' (with_file Malformed new_login))"
  by (simp add: load_session_def with_file_def new_login_def)

text \<open>
  Claim C4 on the code. A jar with a cookie of the empty value is a mapping from
  strings to strings, but \<open>save_session\<close> returns \<open>False\<close> on it and writes no file:
  \<open>dict(self.session.cookies)\<close> raises on the empty value. A load in a new object
  then returns \<open>False\<close> and restores nothing. And a cookie that the portal set to a
  double quote, two backslashes and two double quotes stands in the jar as a double
  quote, a backslash and a double quote; it is saved so, and a load in a new object
  stores a single double quote.
\<close>

theorem round_trip_loses_tokens:
  "map (\<lambda>(domain, path, name, v). (name, v)) (jar_cookies empty_value_jar)
     = [(''ASP.NET_SessionId'', JStr ''abc123''), (''lang'', JStr [])]
   \<and> \<not> fst (save_session ''engie_session.json'' (new_login\<lparr>cookies := empty_value_jar\<rparr>))
   \<and> files (snd (save_session ''engie_session.json'' (new_login\<lparr>cookies := empty_value_jar\<rparr>)))
         ''engie_session.json'' = Missing
   \<and> \<not> fst (load_session ''engie_session.json''
               (new_login\<lparr>files := files (snd (save_session ''engie_session.json''
                                                  (new_login\<lparr>cookies := empty_value_jar\<rparr>)))\<rparr>))
   \<and> jar_cookies (cookies (snd (send (GET dashboard_url)
                                    (new_login\<lparr>replies := [Reply quoted_cookie_page]\<rparr>))))
       = [(''engie.hrhub.ph'', ''/'', ''pref'', JStr [CHR 0x22, CHR 0x5C, CHR 0x22])]
   \<and> fst (save_session ''engie_session.json''
            (snd (send (GET dashboard_url) (new_login\<lparr>replies := [Reply quoted_cookie_page]\<rparr>))))
   \<and> jar_cookies (cookies (snd (load_session ''engie_session.json''
         (new_login\<lparr>files := files (snd (save_session ''engie_session.json''
            (snd (send (GET dashboard_url)
                    (new_login\<lparr>replies := [Reply quoted_cookie_page]\<rparr>)))))\<rparr>))))
       = [([], ''/'', ''pref'', JStr [CHR 0x22])]"
  by code_simp

text \<open>
  Claim C10 on the code. The jar holds the session cookie that the portal set for
  its domain, and the stored session has a cookie of the same name. After the load
  the jar holds both: the cookie of the portal keeps its old value beside the stored
  one, which stands under the empty domain. \<open>dict(self.session.cookies)\<close> raises on
  that jar, so when the stored session has expired and the portal sets its session
  cookie again at the end of the new login, \<open>perform_login\<close> returns \<open>False\<close> and
  \<open>_ensure_authenticated\<close> fails after a login that the portal accepted.
\<close>

theorem load_keeps_cookie_of_other_domain:
  "fst (load_session ''engie_session.json''
          (with_file (Wellformed stored_session) (new_login\<lparr>cookies := portal_jar\<rparr>)))
   \<and> jar_cookies (cookies (snd (load_session ''engie_session.json''
         (with_file (Wellformed stored_session) (new_login\<lparr>cookies := portal_jar\<rparr>)))))
       = [(''engie.hrhub.ph'', ''/'', ''ASP.NET_SessionId'', JStr ''old''),
          ([], ''/'', ''ASP.NET_SessionId'', JStr ''abc123'')]
   \<and> cookies_dict (cookies (snd (load_session ''engie_session.json''
         (with_file (Wellformed stored_session) (new_login\<lparr>cookies := portal_jar\<rparr>)))))
       = None
   \<and> \<not> fst (ensure_authenticated
        (reusable_session
           [Reply (login_page ''https://sso.sprout.ph/realms/engie/auth?client_id=hrhub''
                     [(''client_id'', [''hrhub''])]
                     ''https://sso.sprout.ph/login-actions/authenticate''),
            Reply (login_page ''https://sso.sprout.ph/realms/engie/auth?client_id=hrhub''
                     [(''client_id'', [''hrhub''])]
                     ''https://sso.sprout.ph/login-actions/authenticate''),
            Reply post_back_page, Reply landing_page, Reply dashboard_page]))
   \<and> map fst (new_events
        (reusable_session
           [Reply (login_page ''https://sso.sprout.ph/realms/engie/auth?client_id=hrhub''
                     [(''client_id'', [''hrhub''])]
                     ''https://sso.sprout.ph/login-actions/authenticate''),
            Reply (login_page ''https://sso.sprout.ph/realms/engie/auth?client_id=hrhub''
                     [(''client_id'', [''hrhub''])]
                     ''https://sso.sprout.ph/login-actions/authenticate''),
            Reply post_back_page, Reply landing_page, Reply dashboard_page])
        (snd (ensure_authenticated
           (reusable_session
              [Reply (login_page ''https://sso.sprout.ph/realms/engie/auth?client_id=hrhub''
                        [(''client_id'', [''hrhub''])]
                        ''https://sso.sprout.ph/login-actions/authenticate''),
               Reply (login_page ''https://sso.sprout.ph/realms/engie/auth?client_id=hrhub''
                        [(''client_id'', [''hrhub''])]
                        ''https://sso.sprout.ph/login-actions/authenticate''),
               Reply post_back_page, Reply landing_page, Reply dashboard_page]))))
       = [GET ''https://engie.hrhub.ph/EmployeeDashboard.aspx'',
          GET ''https://engie.hrhub.ph/'',
          POST_form ''https://sso.sprout.ph/login-actions/authenticate''
            [(''username'', ''employee''), (''password'', ''secret''), (''credentialId'', [])],
          POST_form ''https://engie.hrhub.ph/signin-oidc'' [(''code'', ''c0de''), (''state'', ''xyz'')]]"
  by code_simp

subsection \<open>The requests of each method\<close>

lemma send_trace: "send rq s = (r, s') \<Longrightarrow> trace s' = trace s @ [(rq, r)]"
  by (auto simp: send_def split: list.splits reply.splits)

lemma new_events_append [simp]: "trace s' = trace s @ evs \<Longrightarrow> new_events s s' = evs"
  by (simp add: new_events_def)

lemma no_json_post_simps [simp]:
  "no_json_post []"
  "no_json_post (ev # evs) = (\<not> is_json_post (fst ev) \<and> no_json_post evs)"
  "no_json_post (evs @ evs') = (no_json_post evs \<and> no_json_post evs')"
  by (simp_all add: no_json_post_def)

lemma test_authenticated_access_trace:
  "test_authenticated_access s = (b, s') \<Longrightarrow>
   \<exists>r. trace s' = trace s @ [(GET dashboard_url, r)]"
  by (auto simp: test_authenticated_access_def split: prod.splits reply.splits if_splits
           dest: send_trace)

lemma load_session_trace: "load_session f s = (b, s') \<Longrightarrow> trace s' = trace s"
  by (auto simp: load_session_def split: file_content.splits json.splits option.splits)

lemma save_session_trace: "trace (snd (save_session f s)) = trace s"
  by (simp add: save_session_def Let_def split: option.splits)

lemma get_initial_auth_params_trace:
  "get_initial_auth_params s = (b, s') \<Longrightarrow> \<exists>r. trace s' = trace s @ [(GET base_url, r)]"
  by (auto simp: get_initial_auth_params_def Let_def
           split: prod.splits reply.splits if_splits option.splits dest: send_trace)

lemma perform_login_trace:
  "perform_login u p s = (b, s') \<Longrightarrow> \<exists>evs. trace s' = trace s @ evs \<and> no_json_post evs"
  by (auto simp: perform_login_def
           split: prod.splits reply.splits if_splits option.splits dest!: send_trace)

lemma get_employee_id_trace:
  "get_employee_id s = (x, s') \<Longrightarrow> \<exists>r. trace s' = trace s @ [(GET dashboard_url, r)]"
  by (auto simp: get_employee_id_def
           split: prod.splits reply.splits if_splits option.splits dest: send_trace)

lemma fresh_authentication_trace:
  assumes "fresh_authentication s = (b, s')"
  shows "\<exists>evs. trace s' = trace s @ evs \<and> no_json_post evs"
proof -
  obtain b1 s1 where g: "get_initial_auth_params s = (b1, s1)" by (cases "get_initial_auth_params s")
  then obtain r1 where t1: "trace s1 = trace s @ [(GET base_url, r1)]"
    using get_initial_auth_params_trace by blast
  show ?thesis
  proof (cases b1)
    case False
    then have "s' = s1" using assms g by (simp add: fresh_authentication_def)
    then show ?thesis using t1 by simp
  next
    case True
    obtain b2 s2 where p: "perform_login (username s1) (password s1) s1 = (b2, s2)"
      by (cases "perform_login (username s1) (password s1) s1")
    then obtain evs2 where t2: "trace s2 = trace s1 @ evs2" "no_json_post evs2"
      using perform_login_trace by blast
    show ?thesis
    proof (cases b2)
      case False
      then have "s' = s2" using assms g p True by (simp add: fresh_authentication_def)
      then show ?thesis using t1 t2 by simp
    next
      case b2: True
      obtain b3 s3 where a: "test_authenticated_access s2 = (b3, s3)"
        by (cases "test_authenticated_access s2")
      then obtain r3 where t3: "trace s3 = trace s2 @ [(GET dashboard_url, r3)]"
        using test_authenticated_access_trace by blast
      have "trace s' = trace s3"
        using assms g p a True b2 by (cases b3) (auto simp: fresh_authentication_def save_session_trace)
      then show ?thesis using t1 t2 t3 by simp
    qed
  qed
qed

lemma ensure_authenticated_trace:
  assumes "ensure_authenticated s = (b, s')"
  shows "\<exists>evs. trace s' = trace s @ evs \<and> no_json_post evs"
proof -
  obtain b1 s1 where l: "load_session (session_file s) s = (b1, s1)"
    by (cases "load_session (session_file s) s")
  then have t1: "trace s1 = trace s" by (rule load_session_trace)
  show ?thesis
  proof (cases b1)
    case False
    then have "fresh_authentication s1 = (b, s')" using assms l by (simp add: ensure_authenticated_def)
    then show ?thesis using fresh_authentication_trace t1 by fastforce
  next
    case True
    obtain b2 s2 where a: "test_authenticated_access s1 = (b2, s2)"
      by (cases "test_authenticated_access s1")
    then obtain r2 where t2: "trace s2 = trace s1 @ [(GET dashboard_url, r2)]"
      using test_authenticated_access_trace by blast
    show ?thesis
    proof (cases b2)
      case b2: True
      then have "s' = s2" using assms l a True by (simp add: ensure_authenticated_def)
      then show ?thesis using t1 t2 by simp
    next
      case False
      then have "fresh_authentication s2 = (b, s')"
        using assms l a True by (simp add: ensure_authenticated_def)
      then obtain evs where "trace s' = trace s2 @ evs" "no_json_post evs"
        using fresh_authentication_trace by blast
      then show ?thesis using t1 t2 by simp
    qed
  qed
qed

lemma urls_differ:
  "dashboard_url \<noteq> base_url" "validate_url \<noteq> submit_url"
  by (simp_all add: dashboard_url_def validate_url_def submit_url_def base_url_def)

lemma apply_coa_run:
  assumes run: "apply_coa d ti to r t s = (b, s')"
  shows "\<exists>pre post. trace s' = trace s @ pre @ post \<and> no_json_post pre \<and>
     ((post = [] \<and> \<not> b)
      \<or> (\<exists>e rv. post = [(POST_json validate_url
                              (coa_payload t r e (certificate_logs d ti to)), rv)]
            \<and> \<not> b \<and> (\<forall>resp. rv = Reply resp \<longrightarrow> status_code resp \<noteq> 200))
      \<or> (\<exists>e v rs. post = [(POST_json validate_url
                                (coa_payload t r e (certificate_logs d ti to)), Reply v),
                             (POST_json submit_url
                                (coa_payload t r e (certificate_logs d ti to)), rs)]
            \<and> status_code v = 200 \<and> b = commit_reply_outcome rs))"
    (is "\<exists>pre post. ?R pre post")
proof (cases "\<not> truthy_str ti \<and> \<not> truthy_str to")
  case True
  then have "s' = s" "\<not> b" using run by (auto simp: apply_coa_def)
  then have "?R [] []" by simp
  then show ?thesis by blast
next
  case times: False
  obtain b1 s1 where auth: "ensure_authenticated s = (b1, s1)"
    by (cases "ensure_authenticated s")
  then obtain evs1 where t1: "trace s1 = trace s @ evs1" "no_json_post evs1"
    using ensure_authenticated_trace by blast
  show ?thesis
  proof (cases "b1 \<and> strptime d \<noteq> None")
    case False
    then have "s' = s1" "\<not> b"
      using run times auth by (auto simp: apply_coa_def split: option.splits bool.splits)
    then have "?R evs1 []" using t1 by simp
    then show ?thesis by blast
  next
    case parsed: True
    obtain x s2 where emp: "get_employee_id s1 = (x, s2)" by (cases "get_employee_id s1")
    then obtain r2 where t2: "trace s2 = trace s1 @ [(GET dashboard_url, r2)]"
      using get_employee_id_trace by blast
    let ?pre = "evs1 @ [(GET dashboard_url, r2)]"
    have pre: "trace s2 = trace s @ ?pre" "no_json_post ?pre" using t1 t2 by simp_all
    show ?thesis
    proof (cases "\<exists>e. x = Some e \<and> e \<noteq> 0")
      case False
      then have "s' = s2" "\<not> b"
        using run times auth parsed emp by (auto simp: apply_coa_def split: option.splits bool.splits)
      then have "?R ?pre []" using pre by simp
      then show ?thesis by blast
    next
      case True
      then obtain e where e: "x = Some e" "e \<noteq> 0" by blast
      let ?p = "coa_payload t r e (certificate_logs d ti to)"
      obtain rv s3 where val: "send (POST_json validate_url ?p) s2 = (rv, s3)"
        by (cases "send (POST_json validate_url ?p) s2")
      then have t3: "trace s3 = trace s2 @ [(POST_json validate_url ?p, rv)]"
        by (rule send_trace)
      show ?thesis
      proof (cases "\<exists>v. rv = Reply v \<and> status_code v = 200")
        case False
        then have "s' = s3" "\<not> b"
          using run times auth parsed emp e val
          by (auto simp: apply_coa_def Let_def split: option.splits reply.splits bool.splits if_splits)
        moreover have "\<forall>resp. rv = Reply resp \<longrightarrow> status_code resp \<noteq> 200" using False by blast
        ultimately have "?R ?pre [(POST_json validate_url ?p, rv)]" using pre t3 by auto
        then show ?thesis by blast
      next
        case True
        then obtain v where v: "rv = Reply v" "status_code v = 200" by blast
        obtain rs s4 where sub: "send (POST_json submit_url ?p) s3 = (rs, s4)"
          by (cases "send (POST_json submit_url ?p) s3")
        then have t4: "trace s4 = trace s3 @ [(POST_json submit_url ?p, rs)]"
          by (rule send_trace)
        have "s' = s4" "b = commit_reply_outcome rs"
          using run times auth parsed emp e val v sub
          by (auto simp: apply_coa_def Let_def split: option.splits reply.splits bool.splits if_splits)
        then have "?R ?pre [(POST_json validate_url ?p, Reply v), (POST_json submit_url ?p, rs)]"
          using pre t3 t4 v by auto
        then show ?thesis by blast
      qed
    qed
  qed
qed

lemma no_json_post_notin: "no_json_post evs \<Longrightarrow> (POST_json u p, r) \<notin> set evs"
  by (auto simp: no_json_post_def list_all_iff)

subsection \<open>The Session Lifecycle Manager\<close>

text \<open>
  Claim C2. Whenever the stored session loads and the probe of authenticated access
  on it succeeds, \<open>_ensure_authenticated\<close> returns \<open>True\<close> and the only request it
  sends is the probe: there is no fetch of the entry URL (the first step of the
  Authentication Flow) and no form is posted (no credential submission).
\<close>

theorem reuse_fast_path:
  assumes "fst (load_session (session_file s) s)"
    and "fst (test_authenticated_access (snd (load_session (session_file s) s)))"
  shows "fst (ensure_authenticated s)
       \<and> map fst (new_events s (snd (ensure_authenticated s))) = [GET dashboard_url]
       \<and> GET base_url \<notin> fst ` set (new_events s (snd (ensure_authenticated s)))
       \<and> (\<forall>u form. POST_form u form \<notin> fst ` set (new_events s (snd (ensure_authenticated s))))"
proof -
  obtain s1 where l: "load_session (session_file s) s = (True, s1)"
    using assms(1) by (cases "load_session (session_file s) s") auto
  obtain s2 where a: "test_authenticated_access s1 = (True, s2)"
    using assms(2) l by (cases "test_authenticated_access s1") auto
  have e: "ensure_authenticated s = (True, s2)"
    using l a by (simp add: ensure_authenticated_def)
  obtain r where "trace s2 = trace s1 @ [(GET dashboard_url, r)]"
    using test_authenticated_access_trace[OF a] by blast
  then have "trace s2 = trace s @ [(GET dashboard_url, r)]"
    using load_session_trace[OF l] by simp
  then have "new_events s s2 = [(GET dashboard_url, r)]" by simp
  then show ?thesis using e urls_differ(1) by auto
qed

text \<open>A stored session that the portal still accepts.\<close>

theorem reuse_fast_path_witness:
  "fst (load_session (session_file (reusable_session [Reply dashboard_page]))
          (reusable_session [Reply dashboard_page]))
   \<and> fst (ensure_authenticated (reusable_session [Reply dashboard_page]))
   \<and> map fst (new_events (reusable_session [Reply dashboard_page])
                 (snd (ensure_authenticated (reusable_session [Reply dashboard_page]))))
       = [GET dashboard_url]"
proof -
  let ?s = "reusable_session [Reply dashboard_page]"
  have 1: "fst (load_session (session_file ?s) ?s)" by code_simp
  have 2: "fst (test_authenticated_access (snd (load_session (session_file ?s) ?s)))" by code_simp
  show ?thesis using reuse_fast_path[OF 1 2] 1 by simp
qed

subsection \<open>The Action Submitter\<close>

text \<open>
  Claim C8. For every date and every reason and category text, \<open>apply_coa\<close> called
  without \<open>time_in\<close> and without \<open>time_out\<close> returns \<open>False\<close> and leaves the state as
  it was: no request is sent, no reply is consumed, no file is read or written.
\<close>

theorem no_times_no_network:
  "apply_coa target_date None None reason type_other s = (False, s)
   \<and> new_events s (snd (apply_coa target_date None None reason type_other s)) = []"
  by (simp add: apply_coa_def new_events_def)

text \<open>The call of the test \<open>test_coa_no_time_provided\<close>.\<close>

theorem no_times_no_network_witness:
  "apply_coa ''2025-07-20'' None None ''forgot to in/out'' ''forgot to in/out''
      (reusable_session [Reply dashboard_page])
     = (False, reusable_session [Reply dashboard_page])"
  using no_times_no_network[of "''2025-07-20''" "''forgot to in/out''" "''forgot to in/out''"
      "reusable_session [Reply dashboard_page]"]
  by simp

text \<open>
  Claim C3. In every run of \<open>apply_coa\<close> in which the validate request got a response
  whose status is not 200, the result is \<open>False\<close> and no request to the commit
  endpoint was sent.
\<close>

theorem validate_failure_skips_commit:
  assumes "(POST_json validate_url p, Reply resp)
             \<in> set (new_events s (snd (apply_coa d ti to r t s)))"
    and "status_code resp \<noteq> 200"
  shows "\<not> fst (apply_coa d ti to r t s)
       \<and> (\<forall>p' rp. (POST_json submit_url p', rp)
             \<notin> set (new_events s (snd (apply_coa d ti to r t s))))"
proof -
  obtain b s' where run: "apply_coa d ti to r t s = (b, s')" by (cases "apply_coa d ti to r t s")
  from apply_coa_run[OF run] obtain pre post where
    tr: "trace s' = trace s @ pre @ post" and pre: "no_json_post pre" and
    post: "(post = [] \<and> \<not> b)
      \<or> (\<exists>e rv. post = [(POST_json validate_url
                              (coa_payload t r e (certificate_logs d ti to)), rv)]
            \<and> \<not> b \<and> (\<forall>resp. rv = Reply resp \<longrightarrow> status_code resp \<noteq> 200))
      \<or> (\<exists>e v rs. post = [(POST_json validate_url
                                (coa_payload t r e (certificate_logs d ti to)), Reply v),
                             (POST_json submit_url
                                (coa_payload t r e (certificate_logs d ti to)), rs)]
            \<and> status_code v = 200 \<and> b = commit_reply_outcome rs)"
    by blast
  have ev: "new_events s s' = pre @ post" using tr by simp
  have mem: "(POST_json validate_url p, Reply resp) \<in> set post"
    using assms(1) run ev no_json_post_notin[OF pre] by auto
  have "\<not> b \<and> (\<forall>p' rp. (POST_json submit_url p', rp) \<notin> set post)"
    using post mem assms(2) urls_differ(2) by auto
  then show ?thesis using run ev no_json_post_notin[OF pre] by auto
qed

text \<open>The run of the test \<open>test_coa_validation_failure\<close>: the validation answers 400.\<close>

theorem validate_failure_skips_commit_witness:
  "status_code validate_refused \<noteq> 200
   \<and> (POST_json validate_url
         (coa_payload ''forgot to in/out'' ''forgot to in/out'' 6033
            (certificate_logs ''2025-07-20'' (Some ''09:32'') None)),
       Reply validate_refused)
       \<in> set (new_events
                (reusable_session [Reply dashboard_page, Reply dashboard_page, Reply validate_refused])
                (snd (apply_coa ''2025-07-20'' (Some ''09:32'') None
                        ''forgot to in/out'' ''forgot to in/out''
                        (reusable_session
                           [Reply dashboard_page, Reply dashboard_page, Reply validate_refused]))))
   \<and> \<not> fst (apply_coa ''2025-07-20'' (Some ''09:32'') None
                ''forgot to in/out'' ''forgot to in/out''
                (reusable_session
                   [Reply dashboard_page, Reply dashboard_page, Reply validate_refused]))"
proof -
  let ?s = "reusable_session [Reply dashboard_page, Reply dashboard_page, Reply validate_refused]"
  let ?p = "coa_payload ''forgot to in/out'' ''forgot to in/out'' 6033
              (certificate_logs ''2025-07-20'' (Some ''09:32'') None)"
  let ?run = "apply_coa ''2025-07-20'' (Some ''09:32'') None
                ''forgot to in/out'' ''forgot to in/out'' ?s"
  have 1: "(POST_json validate_url ?p, Reply validate_refused) \<in> set (new_events ?s (snd ?run))"
    by code_simp
  have 2: "status_code validate_refused \<noteq> 200" by code_simp
  show ?thesis using validate_failure_skips_commit[OF 1 2] 1 2 by blast
qed

text \<open>
  Claim C5, as the code has it. In every run of \<open>apply_coa\<close> in which the commit
  request got a response of status 200: the result is \<open>True\<close> when the body is a JSON
  object whose field \<open>d\<close> is present and truthy; \<open>True\<close> when the body is not JSON;
  and \<open>False\<close> when the body is a JSON object whose field \<open>d\<close> is absent or falsy.
\<close>

theorem commit_response_outcome:
  assumes "(POST_json submit_url p, Reply resp)
             \<in> set (new_events s (snd (apply_coa d ti to r t s)))"
    and "status_code resp = 200"
  shows "(\<forall>result v. resp_json resp = Some (JObj result) \<and> map_of result ''d'' = Some v \<and> truthy v
            \<longrightarrow> fst (apply_coa d ti to r t s))
       \<and> (resp_json resp = None \<longrightarrow> fst (apply_coa d ti to r t s))
       \<and> (\<forall>result. resp_json resp = Some (JObj result)
              \<and> (map_of result ''d'' = None \<or> (\<exists>v. map_of result ''d'' = Some v \<and> \<not> truthy v))
            \<longrightarrow> \<not> fst (apply_coa d ti to r t s))"
proof -
  obtain b s' where run: "apply_coa d ti to r t s = (b, s')" by (cases "apply_coa d ti to r t s")
  from apply_coa_run[OF run] obtain pre post where
    tr: "trace s' = trace s @ pre @ post" and pre: "no_json_post pre" and
    post: "(post = [] \<and> \<not> b)
      \<or> (\<exists>e rv. post = [(POST_json validate_url
                              (coa_payload t r e (certificate_logs d ti to)), rv)]
            \<and> \<not> b \<and> (\<forall>resp. rv = Reply resp \<longrightarrow> status_code resp \<noteq> 200))
      \<or> (\<exists>e v rs. post = [(POST_json validate_url
                                (coa_payload t r e (certificate_logs d ti to)), Reply v),
                             (POST_json submit_url
                                (coa_payload t r e (certificate_logs d ti to)), rs)]
            \<and> status_code v = 200 \<and> b = commit_reply_outcome rs)"
    by blast
  have ev: "new_events s s' = pre @ post" using tr by simp
  have mem: "(POST_json submit_url p, Reply resp) \<in> set post"
    using assms(1) run ev no_json_post_notin[OF pre] by auto
  have "b = commit_reply_outcome (Reply resp)"
    using post mem urls_differ(2) by auto
  then have b: "b = commit_outcome resp" using assms(2) by simp
  show ?thesis
    using run b by (auto simp: commit_outcome_def split: json.splits)
qed

text \<open>The run of the test \<open>test_coa_both_times\<close>.\<close>

theorem commit_response_outcome_witness:
  "(POST_json submit_url
      (coa_payload ''forgot to in/out'' ''forgot to in/out'' 6033
         (certificate_logs ''2025-07-20'' (Some ''09:32'') (Some ''17:30''))),
    Reply commit_accepted)
     \<in> set (new_events
              (reusable_session [Reply dashboard_page, Reply dashboard_page,
                                 Reply validate_passed, Reply commit_accepted])
              (snd (apply_coa ''2025-07-20'' (Some ''09:32'') (Some ''17:30'')
                      ''forgot to in/out'' ''forgot to in/out''
                      (reusable_session [Reply dashboard_page, Reply dashboard_page,
                                         Reply validate_passed, Reply commit_accepted]))))
   \<and> status_code commit_accepted = 200
   \<and> resp_json commit_accepted
       = Some (JObj [(''d'', JObj [(''IsSuccess'', JBool True), (''ID'', JNum 123)])])
   \<and> fst (apply_coa ''2025-07-20'' (Some ''09:32'') (Some ''17:30'')
            ''forgot to in/out'' ''forgot to in/out''
            (reusable_session [Reply dashboard_page, Reply dashboard_page,
                               Reply validate_passed, Reply commit_accepted]))"
proof -
  let ?s = "reusable_session [Reply dashboard_page, Reply dashboard_page,
                              Reply validate_passed, Reply commit_accepted]"
  let ?p = "coa_payload ''forgot to in/out'' ''forgot to in/out'' 6033
              (certificate_logs ''2025-07-20'' (Some ''09:32'') (Some ''17:30''))"
  let ?run = "apply_coa ''2025-07-20'' (Some ''09:32'') (Some ''17:30'')
                ''forgot to in/out'' ''forgot to in/out'' ?s"
  have 1: "(POST_json submit_url ?p, Reply commit_accepted) \<in> set (new_events ?s (snd ?run))"
    by code_simp
  have 2: "status_code commit_accepted = 200" by code_simp
  have 3: "resp_json commit_accepted
       = Some (JObj [(''d'', JObj [(''IsSuccess'', JBool True), (''ID'', JNum 123)])])"
    by (simp add: commit_accepted_def json_reply_def)
  have 4: "map_of [(''d'', JObj [(''IsSuccess'', JBool True), (''ID'', JNum 123)])] ''d''
       = Some (JObj [(''IsSuccess'', JBool True), (''ID'', JNum 123)])"
    by simp
  have 5: "truthy (JObj [(''IsSuccess'', JBool True), (''ID'', JNum 123)])" by simp
  have "fst ?run" using commit_response_outcome[OF 1 2] 3 4 5 by blast
  then show ?thesis using 1 2 3 by blast
qed

text \<open>
  Claim C5 as stated speaks of every success status and of every body without the
  field \<open>d\<close>. A commit response of status 201 with a truthy \<open>d\<close> is rejected, since
  the code accepts the status 200 only; and the body \<open>null\<close>, which parses and has
  no field \<open>d\<close>, is accepted under status 200.
\<close>

theorem claimed_commit_outcomes_fail:
  "200 \<le> status_code commit_created \<and> status_code commit_created < 300
   \<and> resp_json commit_created
       = Some (JObj [(''d'', JObj [(''IsSuccess'', JBool True), (''ID'', JNum 123)])])
   \<and> truthy (JObj [(''IsSuccess'', JBool True), (''ID'', JNum 123)])
   \<and> (POST_json submit_url
         (coa_payload ''forgot to in/out'' ''forgot to in/out'' 6033
            (certificate_logs ''2025-07-20'' (Some ''09:32'') (Some ''17:30''))),
       Reply commit_created)
       \<in> set (new_events
                (reusable_session [Reply dashboard_page, Reply dashboard_page,
                                   Reply validate_passed, Reply commit_created])
                (snd (apply_coa ''2025-07-20'' (Some ''09:32'') (Some ''17:30'')
                        ''forgot to in/out'' ''forgot to in/out''
                        (reusable_session [Reply dashboard_page, Reply dashboard_page,
                                           Reply validate_passed, Reply commit_created]))))
   \<and> \<not> fst (apply_coa ''2025-07-20'' (Some ''09:32'') (Some ''17:30'')
               ''forgot to in/out'' ''forgot to in/out''
               (reusable_session [Reply dashboard_page, Reply dashboard_page,
                                  Reply validate_passed, Reply commit_created]))
   \<and> status_code commit_null = 200
   \<and> resp_json commit_null = Some JNull
   \<and> json_get JNull ''d'' = None
   \<and> (POST_json submit_url
         (coa_payload ''forgot to in/out'' ''forgot to in/out'' 6033
            (certificate_logs ''2025-07-20'' (Some ''09:32'') (Some ''17:30''))),
       Reply commit_null)
       \<in> set (new_events
                (reusable_session [Reply dashboard_page, Reply dashboard_page,
                                   Reply validate_passed, Reply commit_null])
                (snd (apply_coa ''2025-07-20'' (Some ''09:32'') (Some ''17:30'')
                        ''forgot to in/out'' ''forgot to in/out''
                        (reusable_session [Reply dashboard_page, Reply dashboard_page,
                                           Reply validate_passed, Reply commit_null]))))
   \<and> fst (apply_coa ''2025-07-20'' (Some ''09:32'') (Some ''17:30'')
            ''forgot to in/out'' ''forgot to in/out''
            (reusable_session [Reply dashboard_page, Reply dashboard_page,
                               Reply validate_passed, Reply commit_null]))"
  by code_simp

lemma formatted_certificate_logs_payload:
  "formatted_certificate_logs (coa_payload t r e logs) = Some (JArr logs)"
  by (simp add: formatted_certificate_logs_def json_get_def coa_payload_def)

text \<open>
  Claim C9. The payload of every JSON request of a run of \<open>apply_coa\<close> (the validate
  and the commit request) has, under \<open>FormattedCertificateLogs\<close>: with both times
  given, exactly the \<open>In\<close> entry followed by the \<open>Out\<close> entry, each with the target
  date, its own time and \<open>CertificateLogID\<close> 0; with one time given, exactly the one
  entry of that time. A time is given when it is neither \<open>None\<close> nor the empty string,
  which is what \<open>if time_in:\<close> tests.
\<close>

theorem payload_certificate_logs:
  assumes "(POST_json u p, rp) \<in> set (new_events s (snd (apply_coa d ti to r t s)))"
  shows "(\<forall>a b. ti = Some a \<and> a \<noteq> [] \<and> to = Some b \<and> b \<noteq> [] \<longrightarrow>
            formatted_certificate_logs p =
              Some (JArr [JObj [(''FormattedDate'', JStr d), (''FormattedTime'', JStr a),
                                (''Type'', JStr ''In''), (''CertificateLogID'', JNum 0)],
                          JObj [(''FormattedDate'', JStr d), (''FormattedTime'', JStr b),
                                (''Type'', JStr ''Out''), (''CertificateLogID'', JNum 0)]]))
       \<and> (\<forall>a. ti = Some a \<and> a \<noteq> [] \<and> \<not> truthy_str to \<longrightarrow>
            formatted_certificate_logs p =
              Some (JArr [JObj [(''FormattedDate'', JStr d), (''FormattedTime'', JStr a),
                                (''Type'', JStr ''In''), (''CertificateLogID'', JNum 0)]]))
       \<and> (\<forall>b. \<not> truthy_str ti \<and> to = Some b \<and> b \<noteq> [] \<longrightarrow>
            formatted_certificate_logs p =
              Some (JArr [JObj [(''FormattedDate'', JStr d), (''FormattedTime'', JStr b),
                                (''Type'', JStr ''Out''), (''CertificateLogID'', JNum 0)]]))"
proof -
  obtain b s' where run: "apply_coa d ti to r t s = (b, s')" by (cases "apply_coa d ti to r t s")
  from apply_coa_run[OF run] obtain pre post where
    tr: "trace s' = trace s @ pre @ post" and pre: "no_json_post pre" and
    post: "(post = [] \<and> \<not> b)
      \<or> (\<exists>e rv. post = [(POST_json validate_url
                              (coa_payload t r e (certificate_logs d ti to)), rv)]
            \<and> \<not> b \<and> (\<forall>resp. rv = Reply resp \<longrightarrow> status_code resp \<noteq> 200))
      \<or> (\<exists>e v rs. post = [(POST_json validate_url
                                (coa_payload t r e (certificate_logs d ti to)), Reply v),
                             (POST_json submit_url
                                (coa_payload t r e (certificate_logs d ti to)), rs)]
            \<and> status_code v = 200 \<and> b = commit_reply_outcome rs)"
    by blast
  have ev: "new_events s s' = pre @ post" using tr by simp
  have mem: "(POST_json u p, rp) \<in> set post"
    using assms(1) run ev no_json_post_notin[OF pre] by auto
  have "\<exists>e. p = coa_payload t r e (certificate_logs d ti to)"
    using post mem by auto
  then have logs: "formatted_certificate_logs p = Some (JArr (certificate_logs d ti to))"
    using formatted_certificate_logs_payload by blast
  show ?thesis
    unfolding logs by (cases ti; cases to) (auto simp: certificate_logs_def)
qed

text \<open>The payload validated in the run with both times.\<close>

theorem payload_certificate_logs_witness:
  "(POST_json validate_url
      (coa_payload ''forgot to in/out'' ''forgot to in/out'' 6033
         (certificate_logs ''2025-07-20'' (Some ''09:32'') (Some ''17:30''))),
    Reply validate_passed)
     \<in> set (new_events
              (reusable_session [Reply dashboard_page, Reply dashboard_page,
                                 Reply validate_passed, Reply commit_accepted])
              (snd (apply_coa ''2025-07-20'' (Some ''09:32'') (Some ''17:30'')
                      ''forgot to in/out'' ''forgot to in/out''
                      (reusable_session [Reply dashboard_page, Reply dashboard_page,
                                         Reply validate_passed, Reply commit_accepted]))))
   \<and> formatted_certificate_logs
        (coa_payload ''forgot to in/out'' ''forgot to in/out'' 6033
           (certificate_logs ''2025-07-20'' (Some ''09:32'') (Some ''17:30'')))
       = Some (JArr [JObj [(''FormattedDate'', JStr ''2025-07-20''),
                           (''FormattedTime'', JStr ''09:32''),
                           (''Type'', JStr ''In''), (''CertificateLogID'', JNum 0)],
                     JObj [(''FormattedDate'', JStr ''2025-07-20''),
                           (''FormattedTime'', JStr ''17:30''),
                           (''Type'', JStr ''Out''), (''CertificateLogID'', JNum 0)]])"
proof -
  let ?s = "reusable_session [Reply dashboard_page, Reply dashboard_page,
                              Reply validate_passed, Reply commit_accepted]"
  let ?p = "coa_payload ''forgot to in/out'' ''forgot to in/out'' 6033
              (certificate_logs ''2025-07-20'' (Some ''09:32'') (Some ''17:30''))"
  let ?run = "apply_coa ''2025-07-20'' (Some ''09:32'') (Some ''17:30'')
                ''forgot to in/out'' ''forgot to in/out'' ?s"
  have 1: "(POST_json validate_url ?p, Reply validate_passed) \<in> set (new_events ?s (snd ?run))"
    by code_simp
  have 2: "''09:32'' \<noteq> []" "''17:30'' \<noteq> []" by simp_all
  show ?thesis using payload_certificate_logs[OF 1] 1 2 by blast
qed

text \<open>
  Claim C1 on the code. The date \<open>07/25/2025\<close> does not parse, and \<open>apply_coa\<close> returns
  \<open>False\<close> for it, but only after \<open>_ensure_authenticated\<close>: with a stored session the
  probe has been sent, and without one the whole Authentication Flow has run,
  credentials included, before the date is looked at.
\<close>

theorem noncanonical_date_rejected_after_authentication:
  "strptime ''07/25/2025'' = None
   \<and> \<not> fst (apply_coa ''07/25/2025'' (Some ''09:00'') None
               ''forgot to in/out'' ''forgot to in/out''
               (reusable_session [Reply dashboard_page]))
   \<and> map fst (new_events (reusable_session [Reply dashboard_page])
         (snd (apply_coa ''07/25/2025'' (Some ''09:00'') None
                 ''forgot to in/out'' ''forgot to in/out''
                 (reusable_session [Reply dashboard_page]))))
       = [GET ''https://engie.hrhub.ph/EmployeeDashboard.aspx'']
   \<and> \<not> fst (apply_coa ''07/25/2025'' (Some ''09:00'') None
               ''forgot to in/out'' ''forgot to in/out''
               (new_login\<lparr>replies :=
                  [Reply (login_page ''https://sso.sprout.ph/realms/engie/auth?client_id=hrhub''
                            [(''client_id'', [''hrhub''])]
                            ''https://sso.sprout.ph/login-actions/authenticate''),
                   Reply post_back_page, Reply dashboard_page, Reply dashboard_page]\<rparr>))
   \<and> map fst (new_events new_login
         (snd (apply_coa ''07/25/2025'' (Some ''09:00'') None
                 ''forgot to in/out'' ''forgot to in/out''
                 (new_login\<lparr>replies :=
                    [Reply (login_page ''https://sso.sprout.ph/realms/engie/auth?client_id=hrhub''
                              [(''client_id'', [''hrhub''])]
                              ''https://sso.sprout.ph/login-actions/authenticate''),
                     Reply post_back_page, Reply dashboard_page, Reply dashboard_page]\<rparr>))))
       = [GET ''https://engie.hrhub.ph/'',
          POST_form ''https://sso.sprout.ph/login-actions/authenticate''
            [(''username'', ''employee''), (''password'', ''secret''), (''credentialId'', [])],
          POST_form ''https://engie.hrhub.ph/signin-oidc'' [(''code'', ''c0de''), (''state'', ''xyz'')],
          GET ''https://engie.hrhub.ph/EmployeeDashboard.aspx'']"
  by code_simp

subsection \<open>The first step of the Authentication Flow\<close>

text \<open>
  Claim C7 on the code. The final URL has the host \<open>login.example.org\<close> and carries
  the text \<open>sso.sprout.ph\<close> in its query. The step does not fail on it, and
  \<open>_ensure_authenticated\<close> goes on to post the credentials to the form action of
  that page.
\<close>

theorem other_host_passes_host_check:
  "spec_url_host ''https://login.example.org/auth?next=sso.sprout.ph'' = ''login.example.org''
   \<and> spec_url_host ''https://login.example.org/auth?next=sso.sprout.ph'' \<noteq> ''sso.sprout.ph''
   \<and> fst (get_initial_auth_params
        (new_login\<lparr>replies :=
           [Reply (login_page ''https://login.example.org/auth?next=sso.sprout.ph''
                     [(''next'', [''sso.sprout.ph''])]
                     ''https://login.example.org/authenticate'')]\<rparr>))
   \<and> map fst (new_events
        (new_login\<lparr>replies :=
           [Reply (login_page ''https://login.example.org/auth?next=sso.sprout.ph''
                     [(''next'', [''sso.sprout.ph''])]
                     ''https://login.example.org/authenticate'')]\<rparr>)
        (snd (ensure_authenticated
           (new_login\<lparr>replies :=
              [Reply (login_page ''https://login.example.org/auth?next=sso.sprout.ph''
                        [(''next'', [''sso.sprout.ph''])]
                        ''https://login.example.org/authenticate'')]\<rparr>))))
       = [GET ''https://engie.hrhub.ph/'',
          POST_form ''https://login.example.org/authenticate''
            [(''username'', ''employee''), (''password'', ''secret''), (''credentialId'', [])]]"
  by code_simp

end
